theory Spec2Isabelle
  imports Complex_Main "HOL-Library.Sublist"
begin

section \<open>Text model\<close>

text \<open>
  A Python \<open>str\<close> is modelled as a list of code points below 256 (one \<open>char\<close> per code
  point, the Latin-1 range).  On that range the character classes below are the ones of
  CPython: \<open>str.isspace\<close> (which is also what \<open>str.split()\<close>, \<open>str.strip()\<close> and the
  regular expression class \<open>\s\<close> use), \<open>str.isalpha\<close>, the numeric characters
  (\<open>isdecimal\<close>, \<open>isdigit\<close> or \<open>isnumeric\<close>) and the class \<open>\w\<close>, which is
  \<open>isalnum\<close> or the underscore.  Titles with code points from 256 on are outside the model.
\<close>

definition code :: "char \<Rightarrow> nat" where
  "code c = of_char c"

definition is_space :: "char \<Rightarrow> bool" where
  "is_space c = ((9 \<le> code c \<and> code c \<le> 13) \<or> (28 \<le> code c \<and> code c \<le> 32)
                 \<or> code c = 133 \<or> code c = 160)"

definition is_letter :: "char \<Rightarrow> bool" where
  "is_letter c = ((65 \<le> code c \<and> code c \<le> 90) \<or> (97 \<le> code c \<and> code c \<le> 122)
                  \<or> code c = 170 \<or> code c = 181 \<or> code c = 186
                  \<or> (192 \<le> code c \<and> code c \<le> 214) \<or> (216 \<le> code c \<and> code c \<le> 246)
                  \<or> 248 \<le> code c)"

definition is_digit :: "char \<Rightarrow> bool" where
  "is_digit c = ((48 \<le> code c \<and> code c \<le> 57) \<or> code c = 178 \<or> code c = 179
                 \<or> code c = 185 \<or> (188 \<le> code c \<and> code c \<le> 190))"

text \<open>The regular expression class \<open>\w\<close>.\<close>

definition is_word :: "char \<Rightarrow> bool" where
  "is_word c = (is_letter c \<or> is_digit c \<or> c = CHR ''_'')"

text \<open>\<open>str.lower\<close>, one code point at a time: A to Z and the upper-case letters of
  Latin-1 (192 to 222 without the multiplication sign 215) move up by 32.\<close>

definition lower_char :: "char \<Rightarrow> char" where
  "lower_char c = (if (65 \<le> code c \<and> code c \<le> 90) \<or> (192 \<le> code c \<and> code c \<le> 222 \<and> code c \<noteq> 215)
                   then char_of (code c + 32) else c)"

definition lower :: "string \<Rightarrow> string" where
  "lower s = map lower_char s"

text \<open>\<open>re.sub(r'[^\w\s]', '', s)\<close>: every character outside \<open>\w\<close> and \<open>\s\<close> is deleted.\<close>

definition re_sub_nonword :: "string \<Rightarrow> string" where
  "re_sub_nonword s = filter (\<lambda>c. is_word c \<or> is_space c) s"

text \<open>\<open>s.split()\<close> with no separator: one scan from the left, \<open>cur\<close> is the word being
  read; a whitespace character closes it, and empty words are never emitted.\<close>

fun split_scan :: "string \<Rightarrow> string \<Rightarrow> string list" where
  "split_scan cur [] = (if cur = [] then [] else [cur])"
| "split_scan cur (c # cs) =
     (if is_space c then (if cur = [] then split_scan [] cs else cur # split_scan [] cs)
      else split_scan (cur @ [c]) cs)"

definition split :: "string \<Rightarrow> string list" where
  "split s = split_scan [] s"

text \<open>\<open>' '.join(ws)\<close>.\<close>

fun join :: "string list \<Rightarrow> string" where
  "join [] = []"
| "join [w] = w"
| "join (w # ws) = w @ CHR '' '' # join ws"

text \<open>\<open>s.strip()\<close>.\<close>

definition strip :: "string \<Rightarrow> string" where
  "strip s = rev (dropWhile is_space (rev (dropWhile is_space s)))"

text \<open>\<open>s.split('+')\<close>: the list is never empty, and a separator at the end gives a last
  empty piece.\<close>

fun split_on :: "char \<Rightarrow> string \<Rightarrow> string \<Rightarrow> string list" where
  "split_on d cur [] = [cur]"
| "split_on d cur (c # cs) = (if c = d then cur # split_on d [] cs else split_on d (cur @ [c]) cs)"

section \<open>Normalizer\<close>

text \<open>A cell of the table is \<open>None\<close> where pandas holds a missing value (\<open>pd.isna\<close>).\<close>

definition normalize_title :: "string option \<Rightarrow> string" where
  "normalize_title title =
     (case title of
        None \<Rightarrow> []
      | Some t \<Rightarrow> join (split (re_sub_nonword (lower t))))"

definition get_primary_author :: "string option \<Rightarrow> string" where
  "get_primary_author author_str =
     (case author_str of
        None \<Rightarrow> []
      | Some a \<Rightarrow> (case split_on (CHR ''+'') [] a of
                     [] \<Rightarrow> []
                   | first # _ \<Rightarrow> lower (strip first)))"

text \<open>The normalizer as the specification words it: lower-case, delete what is not kept,
  collapse each run of whitespace to one space, trim both ends.  The class of kept
  characters is a parameter, so that the wording can be compared with the code.\<close>

fun collapse_ws :: "string \<Rightarrow> string" where
  "collapse_ws [] = []"
| "collapse_ws [c] = (if is_space c then [CHR '' ''] else [c])"
| "collapse_ws (c # d # cs) =
     (if is_space c then (if is_space d then collapse_ws (d # cs) else CHR '' '' # collapse_ws (d # cs))
      else c # collapse_ws (d # cs))"

definition rstrip :: "string \<Rightarrow> string" where
  "rstrip s = rev (dropWhile is_space (rev s))"

definition spec_normalize :: "(char \<Rightarrow> bool) \<Rightarrow> string option \<Rightarrow> string" where
  "spec_normalize keep title =
     (case title of None \<Rightarrow> [] | Some t \<Rightarrow> strip (collapse_ws (filter keep (lower t))))"

section \<open>Categorizer\<close>

text \<open>One row of a person's table, with the three columns the analyzer reads.\<close>

record book_row =
  Title :: "string option"
  Author :: "string option"
  Status :: "string option"

type_synonym dataframe = "book_row list"

text \<open>\<open>df[df['Status'] != 'deleted']\<close>: a missing status is not equal to \<open>'deleted'\<close>,
  so such a row stays.\<close>

definition drop_deleted :: "dataframe \<Rightarrow> dataframe" where
  "drop_deleted person_df = filter (\<lambda>r. Status r \<noteq> Some ''deleted'') person_df"

definition normalized_title :: "book_row \<Rightarrow> string" where
  "normalized_title r = normalize_title (Title r)"

definition primary_author :: "book_row \<Rightarrow> string" where
  "primary_author r = get_primary_author (Author r)"

text \<open>\<open>df['Status'].isin(['finished', 'currently_reading'])\<close>.\<close>

definition status_finished :: "book_row \<Rightarrow> bool" where
  "status_finished r = (Status r = Some ''finished'' \<or> Status r = Some ''currently_reading'')"

text \<open>The dictionaries \<open>books1\<close>, \<open>books2\<close> (the key \<open>'all'\<close> is the field \<open>all_books\<close>)
  and \<open>authors1\<close>, \<open>authors2\<close>.\<close>

record book_sets =
  finished :: "string set"
  want_to_read :: "string set"
  did_not_finish :: "string set"
  all_books :: "string set"

record author_sets =
  finished_authors :: "string set"
  all_authors :: "string set"

definition books :: "dataframe \<Rightarrow> book_sets" where
  "books person_df =
     (let df = drop_deleted person_df in
      \<lparr> finished = set (map normalized_title (filter status_finished df)),
        want_to_read = set (map normalized_title (filter (\<lambda>r. Status r = Some ''want_to_read'') df)),
        did_not_finish = set (map normalized_title (filter (\<lambda>r. Status r = Some ''did_not_finish'') df)),
        all_books = set (map normalized_title df) \<rparr>)"

definition authors :: "dataframe \<Rightarrow> author_sets" where
  "authors person_df =
     (let df = drop_deleted person_df in
      \<lparr> finished_authors = set (map primary_author (filter status_finished df)) - {[]},
        all_authors = set (map primary_author df) - {[]} \<rparr>)"

section \<open>Score engine\<close>

text \<open>Python's floats are modelled by the real numbers: \<open>len\<close> is \<open>card\<close>, \<open>/\<close> is real
  division, and the weights are the decimal fractions the source writes.\<close>

record scores =
  shared_finished :: real
  shared_authors :: real
  cross_recommendations :: real
  shared_tbr :: real
  reading_behavior :: real
  disagreement_penalty :: real

definition shared_finished_component :: "book_sets \<Rightarrow> book_sets \<Rightarrow> real" where
  "shared_finished_component books1 books2 =
     (if card (finished books1) + card (finished books2) > 0 then
        (let shared_finished_score =
               (if min (card (finished books1)) (card (finished books2)) > 0
                then real (card (finished books1 \<inter> finished books2))
                       / real (min (card (finished books1)) (card (finished books2)))
                else 0)
         in min 1 shared_finished_score * 0.35)
      else 0)"

definition shared_authors_component :: "author_sets \<Rightarrow> author_sets \<Rightarrow> real" where
  "shared_authors_component authors1 authors2 =
     (if card (all_authors authors1) + card (all_authors authors2) > 0 then
        (let author_jaccard = real (card (all_authors authors1 \<inter> all_authors authors2))
                                / real (card (all_authors authors1 \<union> all_authors authors2))
         in sqrt author_jaccard * 0.30)
      else 0)"

definition cross_recs_count :: "book_sets \<Rightarrow> book_sets \<Rightarrow> nat" where
  "cross_recs_count books1 books2 =
     card (finished books1 \<inter> want_to_read books2) + card (finished books2 \<inter> want_to_read books1)"

definition cross_recommendations_component :: "book_sets \<Rightarrow> book_sets \<Rightarrow> real" where
  "cross_recommendations_component books1 books2 =
     (let total_possible = card (finished books1) + card (finished books2) in
      if total_possible > 0 then
        (let cross_rec_score = real (cross_recs_count books1 books2) / (real total_possible * 0.1)
         in min 1 cross_rec_score * 0.10)
      else 0)"

definition shared_tbr_component :: "book_sets \<Rightarrow> book_sets \<Rightarrow> real" where
  "shared_tbr_component books1 books2 =
     (if card (want_to_read books1) + card (want_to_read books2) > 0 then
        (let tbr_jaccard = real (card (want_to_read books1 \<inter> want_to_read books2))
                             / real (card (want_to_read books1 \<union> want_to_read books2))
         in tbr_jaccard * 0.20)
      else 0)"

definition finish_rate :: "book_sets \<Rightarrow> real" where
  "finish_rate b = (if card (all_books b) > 0 then real (card (finished b)) / real (card (all_books b)) else 0)"

definition size_ratio :: "book_sets \<Rightarrow> book_sets \<Rightarrow> real" where
  "size_ratio books1 books2 =
     (if max (card (all_books books1)) (card (all_books books2)) > 0
      then real (min (card (all_books books1)) (card (all_books books2)))
             / real (max (card (all_books books1)) (card (all_books books2)))
      else 0)"

definition reading_behavior_component :: "book_sets \<Rightarrow> book_sets \<Rightarrow> real" where
  "reading_behavior_component books1 books2 =
     (let p1_finish_rate = finish_rate books1;
          p2_finish_rate = finish_rate books2;
          finish_rate_similarity = 1 - \<bar>p1_finish_rate - p2_finish_rate\<bar>
      in (finish_rate_similarity * 0.7 + size_ratio books1 books2 * 0.3) * 0.05)"

definition disagreements :: "book_sets \<Rightarrow> book_sets \<Rightarrow> nat" where
  "disagreements books1 books2 =
     card (finished books1 \<inter> did_not_finish books2) + card (finished books2 \<inter> did_not_finish books1)"

definition disagreement_penalty_component :: "book_sets \<Rightarrow> book_sets \<Rightarrow> real" where
  "disagreement_penalty_component books1 books2 = - min 0.15 (real (disagreements books1 books2) * 0.02)"

definition compute_scores :: "book_sets \<Rightarrow> book_sets \<Rightarrow> author_sets \<Rightarrow> author_sets \<Rightarrow> scores" where
  "compute_scores books1 books2 authors1 authors2 =
     \<lparr> shared_finished = shared_finished_component books1 books2,
       shared_authors = shared_authors_component authors1 authors2,
       cross_recommendations = cross_recommendations_component books1 books2,
       shared_tbr = shared_tbr_component books1 books2,
       reading_behavior = reading_behavior_component books1 books2,
       disagreement_penalty = disagreement_penalty_component books1 books2 \<rparr>"

text \<open>\<open>sum(scores.values())\<close>, in the order the keys were inserted.\<close>

definition total_score :: "scores \<Rightarrow> real" where
  "total_score s = 0 + shared_finished s + shared_authors s + cross_recommendations s
                     + shared_tbr s + reading_behavior s + disagreement_penalty s"

text \<open>\<open>round(x, ndigits)\<close>: to the nearest multiple of \<open>10 ^ -ndigits\<close>, a tie to the even one.\<close>

definition round_half_even :: "real \<Rightarrow> int" where
  "round_half_even x =
     (let f = \<lfloor>x\<rfloor>; d = x - of_int f in
      if d < 1/2 then f else if d > 1/2 then f + 1 else if even f then f else f + 1)"

definition py_round :: "real \<Rightarrow> nat \<Rightarrow> real" where
  "py_round x ndigits = of_int (round_half_even (x * 10 ^ ndigits)) / 10 ^ ndigits"

definition round_scores :: "scores \<Rightarrow> scores" where
  "round_scores s =
     \<lparr> shared_finished = py_round (shared_finished s) 3,
       shared_authors = py_round (shared_authors s) 3,
       cross_recommendations = py_round (cross_recommendations s) 3,
       shared_tbr = py_round (shared_tbr s) 3,
       reading_behavior = py_round (reading_behavior s) 3,
       disagreement_penalty = py_round (disagreement_penalty s) 3 \<rparr>"

section \<open>Diagnosis generator\<close>

text \<open>The diagnosis text is kept as its UTF-8 bytes: the five glyphs lie outside Latin-1,
  everything else in it is ASCII.\<close>

definition digit_char :: "nat \<Rightarrow> char" where
  "digit_char d = char_of (48 + d)"

fun show_nat :: "nat \<Rightarrow> string" where
  "show_nat n = (if n < 10 then [digit_char n] else show_nat (n div 10) @ [digit_char (n mod 10)])"

declare show_nat.simps [simp del]

text \<open>The format \<open>:.1f\<close>: one decimal, the sign of a negative number kept even where the
  digits round to zero.\<close>

definition format_1f :: "real \<Rightarrow> string" where
  "format_1f x =
     (let n = nat (round_half_even (\<bar>x\<bar> * 10)) in
      (if x < 0 then ''-'' else []) @ show_nat (n div 10) @ ''.'' @ show_nat (n mod 10))"

text \<open>The level and its glyph: U+1F31F, U+1F60A, U+1F44D, U+1F914, U+1F605.\<close>

definition compatibility_level :: "real \<Rightarrow> string \<times> string" where
  "compatibility_level score =
     (if score \<ge> 0.70 then (''EXCELLENT'', [CHR 0xF0, CHR 0x9F, CHR 0x8C, CHR 0x9F])
      else if score \<ge> 0.50 then (''GOOD'', [CHR 0xF0, CHR 0x9F, CHR 0x98, CHR 0x8A])
      else if score \<ge> 0.30 then (''MODERATE'', [CHR 0xF0, CHR 0x9F, CHR 0x91, CHR 0x8D])
      else if score \<ge> 0.15 then (''LOW'', [CHR 0xF0, CHR 0x9F, CHR 0xA4, CHR 0x94])
      else (''MINIMAL'', [CHR 0xF0, CHR 0x9F, CHR 0x98, CHR 0x85]))"

definition main_assessment :: "real \<Rightarrow> string" where
  "main_assessment score =
     (let (level, emoji) = compatibility_level score in
      emoji @ '' '' @ level @ '' COMPATIBILITY ('' @ format_1f (score * 100) @ ''%)'')"

definition overlap_clause :: "nat \<Rightarrow> string" where
  "overlap_clause n =
     (if n > 10 then ''Strong overlap with '' @ show_nat n @ '' shared books.''
      else if n > 5 then ''Decent overlap with '' @ show_nat n @ '' shared books.''
      else if n > 2 then ''Some overlap with '' @ show_nat n @ '' shared books.''
      else ''Limited overlap with only '' @ show_nat n @ '' shared books.'')"

definition size_clause :: "nat \<Rightarrow> nat \<Rightarrow> string list" where
  "size_clause p1_finished p2_finished =
     (let size_diff = \<bar>int p1_finished - int p2_finished\<bar>;
          size_balanced = size_diff < 20 in
      if \<not> size_balanced then
        (if p1_finished > p2_finished * 2
         then [''Large library size difference - first reader is much more prolific.'']
         else if p2_finished > p1_finished * 2
         then [''Large library size difference - second reader is much more prolific.'']
         else [])
      else [])"

definition recommendation_clause :: "nat \<Rightarrow> string list" where
  "recommendation_clause cross_recs =
     (if cross_recs > 20 then [''Excellent recommendation potential ('' @ show_nat cross_recs @ '' books to share).'']
      else if cross_recs > 10 then [''Good recommendation potential ('' @ show_nat cross_recs @ '' books to share).'']
      else if cross_recs > 5 then [''Some recommendation potential ('' @ show_nat cross_recs @ '' books to share).'']
      else [])"

definition disagreement_clause :: "nat \<Rightarrow> string list" where
  "disagreement_clause n =
     (if n > 5 then [''Notable taste differences ('' @ show_nat n @ '' disagreements).'']
      else if n > 0 then [''Minor taste differences ('' @ show_nat n @ '' disagreements).'']
      else [])"

definition author_clause :: "nat \<Rightarrow> string list" where
  "author_clause n =
     (if n > 5 then [''Very strong author overlap ('' @ show_nat n @ '' shared).'']
      else if n > 2 then [''Good author overlap ('' @ show_nat n @ '' shared).'']
      else [])"

text \<open>The overlap percentage the source computes is never used and is left out; the two
  count arguments that clash with score names carry the prefix \<open>n_\<close>.\<close>

definition diagnosis_parts :: "real \<Rightarrow> nat \<Rightarrow> nat \<Rightarrow> nat \<Rightarrow> nat \<Rightarrow> nat \<Rightarrow> nat \<Rightarrow> string list" where
  "diagnosis_parts score p1_finished p2_finished n_shared_finished n_shared_authors cross_recs n_disagreements =
     [main_assessment score] @ [overlap_clause n_shared_finished]
       @ size_clause p1_finished p2_finished
       @ recommendation_clause cross_recs
       @ disagreement_clause n_disagreements
       @ author_clause n_shared_authors"

definition generate_diagnosis :: "real \<Rightarrow> nat \<Rightarrow> nat \<Rightarrow> nat \<Rightarrow> nat \<Rightarrow> nat \<Rightarrow> nat \<Rightarrow> string" where
  "generate_diagnosis score p1_finished p2_finished n_shared_finished n_shared_authors cross_recs n_disagreements =
     join (diagnosis_parts score p1_finished p2_finished n_shared_finished n_shared_authors
             cross_recs n_disagreements)"

section \<open>Pair result\<close>

record metrics =
  person1_books_finished :: nat
  person2_books_finished :: nat
  shared_books_finished :: nat
  n_shared_authors :: nat
  n_cross_recommendations :: nat
  n_shared_tbr :: nat
  n_disagreements :: nat

text \<open>The result of one pair.  The three sample lists of the source (shared titles, shared
  authors, shared to-read titles) are cut from the iteration order of a Python set, which
  the language leaves open; they are not part of this record.\<close>

record pair_result =
  person1 :: string
  person2 :: string
  compatibility_score :: real
  pair_metrics :: metrics
  diagnosis :: string
  score_breakdown :: scores

definition pair_scores :: "dataframe \<Rightarrow> dataframe \<Rightarrow> scores" where
  "pair_scores person1_df person2_df =
     compute_scores (books person1_df) (books person2_df) (authors person1_df) (authors person2_df)"

definition calculate_compatibility :: "string \<Rightarrow> dataframe \<Rightarrow> string \<Rightarrow> dataframe \<Rightarrow> pair_result" where
  "calculate_compatibility person1_name person1_df person2_name person2_df =
     (let books1 = books person1_df; books2 = books person2_df;
          authors1 = authors person1_df; authors2 = authors person2_df;
          sc = pair_scores person1_df person2_df;
          total = total_score sc;
          m = \<lparr> person1_books_finished = card (finished books1),
                person2_books_finished = card (finished books2),
                shared_books_finished = card (finished books1 \<inter> finished books2),
                n_shared_authors = card (finished_authors authors1 \<inter> finished_authors authors2),
                n_cross_recommendations = cross_recs_count books1 books2,
                n_shared_tbr = card (want_to_read books1 \<inter> want_to_read books2),
                n_disagreements = disagreements books1 books2 \<rparr>
      in \<lparr> person1 = person1_name,
           person2 = person2_name,
           compatibility_score = py_round (total * 100) 1,
           pair_metrics = m,
           diagnosis = generate_diagnosis total (person1_books_finished m) (person2_books_finished m)
                         (shared_books_finished m) (n_shared_authors m) (n_cross_recommendations m)
                         (n_disagreements m),
           score_breakdown = round_scores sc \<rparr>)"

section \<open>Batch runner: ranking\<close>

text \<open>\<open>results.sort(key=..., reverse=True)\<close>: Python's sort is stable, and with
  \<open>reverse=True\<close> it reverses the list, sorts it upwards and reverses it back, so that
  equal keys still keep their order.\<close>

definition sort_reverse :: "('a \<Rightarrow> real) \<Rightarrow> 'a list \<Rightarrow> 'a list" where
  "sort_reverse key xs = rev (sort_key key (rev xs))"

text \<open>What \<open>save_results\<close> writes under \<open>'results'\<close>: the collected results, ranked.\<close>

definition save_results :: "pair_result list \<Rightarrow> pair_result list" where
  "save_results results = sort_reverse compatibility_score results"

section \<open>Statuses and sample tables\<close>

text \<open>A status outside the five values the analyzer compares with; a missing status is one.\<close>

definition unrecognized_status :: "book_row \<Rightarrow> bool" where
  "unrecognized_status r =
     (Status r \<noteq> Some ''finished'' \<and> Status r \<noteq> Some ''currently_reading'' \<and>
      Status r \<noteq> Some ''want_to_read'' \<and> Status r \<noteq> Some ''did_not_finish'' \<and>
      Status r \<noteq> Some ''deleted'')"

text \<open>Sample rows and tables, used to run the definitions on concrete input.\<close>

definition paused_row :: book_row where
  "paused_row = \<lparr> Title = Some ''Dune!'', Author = Some ''Frank Herbert + Other'', Status = Some ''paused'' \<rparr>"

definition deleted_row :: book_row where
  "deleted_row = \<lparr> Title = Some ''Emma'', Author = Some ''Jane Austen'', Status = Some ''deleted'' \<rparr>"

definition finished_row :: "string \<Rightarrow> book_row" where
  "finished_row t = \<lparr> Title = Some t, Author = None, Status = Some ''finished'' \<rparr>"

definition abandoned_row :: "string \<Rightarrow> book_row" where
  "abandoned_row t = \<lparr> Title = Some t, Author = None, Status = Some ''did_not_finish'' \<rparr>"

definition five_finished :: dataframe where
  "five_finished = map finished_row [''A'', ''B'', ''C'', ''D'', ''E'']"

definition eight_finished :: dataframe where
  "eight_finished = map finished_row [''A'', ''B'', ''C'', ''D'', ''E'', ''F'', ''G'', ''H'']"

definition eight_abandoned :: dataframe where
  "eight_abandoned = map abandoned_row [''a'', ''b'', ''c'', ''d'', ''e'', ''f'', ''g'', ''h'']"

text \<open>The glyph of the lowest level, U+1F605.\<close>

definition minimal_glyph :: string where
  "minimal_glyph = [CHR 0xF0, CHR 0x9F, CHR 0x98, CHR 0x85]"

section \<open>Properties of the normalizer\<close>

subsection \<open>Splitting and joining against collapsing and trimming\<close>

lemma is_space_blank: "is_space (CHR '' '')"
  by (simp add: is_space_def code_def)

lemma strip_rstrip: "strip s = rstrip (dropWhile is_space s)"
  by (simp add: strip_def rstrip_def)

lemma rstrip_Cons: "rstrip (c # x) = (if is_space c \<and> (\<forall>y\<in>set x. is_space y) then [] else c # rstrip x)"
  by (auto simp: rstrip_def dropWhile_append)

lemma strip_space: "is_space c \<Longrightarrow> strip (c # x) = strip x"
  by (simp add: strip_def)

lemma strip_nonspace: "\<not> is_space c \<Longrightarrow> strip (c # x) = c # rstrip x"
  by (simp add: strip_rstrip rstrip_Cons)

lemma split_scan_Nil_iff: "split_scan cur s = [] \<longleftrightarrow> cur = [] \<and> (\<forall>c\<in>set s. is_space c)"
  by (induction s arbitrary: cur) auto

lemma collapse_space_head:
  "is_space c \<Longrightarrow> collapse_ws (c # cs) =
     (if cs \<noteq> [] \<and> is_space (hd cs) then collapse_ws cs else CHR '' '' # collapse_ws cs)"
  by (cases cs) auto

lemma collapse_nonspace_head: "\<not> is_space c \<Longrightarrow> collapse_ws (c # cs) = c # collapse_ws cs"
  by (cases cs) auto

lemma collapse_all_space: "list_all is_space s \<Longrightarrow> list_all is_space (collapse_ws s)"
  by (induction s rule: collapse_ws.induct) (simp_all add: is_space_blank)

lemma strip_collapse_space: "is_space c \<Longrightarrow> strip (collapse_ws (c # cs)) = strip (collapse_ws cs)"
  by (simp add: collapse_space_head strip_space is_space_blank)

lemma rstrip_collapse_space:
  "is_space c \<Longrightarrow> \<not> (\<forall>y\<in>set cs. is_space y) \<Longrightarrow>
     rstrip (collapse_ws (c # cs)) = CHR '' '' # strip (collapse_ws cs)"
proof (induction cs arbitrary: c)
  case Nil
  then show ?case by simp
next
  case (Cons d cs')
  show ?case
  proof (cases "is_space d")
    case True
    with Cons.prems have ns: "\<not> (\<forall>y\<in>set cs'. is_space y)" by auto
    have "rstrip (collapse_ws (c # d # cs')) = rstrip (collapse_ws (d # cs'))"
      using Cons.prems(1) True by simp
    also have "\<dots> = CHR '' '' # strip (collapse_ws cs')"
      using Cons.IH [OF True ns] .
    also have "strip (collapse_ws cs') = strip (collapse_ws (d # cs'))"
      using True by (simp add: strip_collapse_space)
    finally show ?thesis .
  next
    case False
    then show ?thesis using Cons.prems(1)
      by (simp add: collapse_nonspace_head rstrip_Cons strip_nonspace)
  qed
qed

lemma rstrip_all_space: "(\<forall>y\<in>set x. is_space y) \<Longrightarrow> rstrip x = []"
  by (simp add: rstrip_def)

lemma join_Cons: "join (w # ws) = (if ws = [] then w else w @ CHR '' '' # join ws)"
  by (cases ws) auto

lemma join_split_scan:
  "join (split_scan [] s) = strip (collapse_ws s) \<and>
   (\<forall>cur. cur \<noteq> [] \<longrightarrow> join (split_scan cur s) = cur @ rstrip (collapse_ws s))"
proof (induction s)
  case Nil
  show ?case by (simp add: strip_def rstrip_def)
next
  case (Cons c cs)
  show ?case
  proof (cases "is_space c")
    case True
    have a: "join (split_scan [] (c # cs)) = strip (collapse_ws (c # cs))"
      using True Cons.IH by (simp add: strip_collapse_space)
    have b: "join (split_scan cur (c # cs)) = cur @ rstrip (collapse_ws (c # cs))" if "cur \<noteq> []" for cur
    proof (cases "\<forall>y\<in>set cs. is_space y")
      case all: True
      then have "split_scan [] cs = []" by (simp add: split_scan_Nil_iff)
      moreover have "rstrip (collapse_ws (c # cs)) = []"
        using all True collapse_all_space [of "c # cs"] by (simp add: rstrip_all_space list_all_iff)
      ultimately show ?thesis using True that by simp
    next
      case False
      then have "split_scan [] cs \<noteq> []" by (simp add: split_scan_Nil_iff)
      then show ?thesis using True that Cons.IH rstrip_collapse_space [OF True False]
        by (simp add: join_Cons)
    qed
    from a b show ?thesis by blast
  next
    case False
    then show ?thesis using Cons.IH
      by (simp add: collapse_nonspace_head strip_nonspace rstrip_Cons)
  qed
qed

lemma join_split_eq: "join (split s) = strip (collapse_ws s)"
  by (simp add: split_def join_split_scan)

text \<open>
  Claim C3, as amended.  \<open>normalize_title\<close> returns the empty string on a missing and on an
  empty title, and on every title it lower-cases the text, deletes every character that is
  neither a word character (a letter, a digit or the underscore) nor whitespace, turns each
  run of whitespace into one space and trims both ends.
\<close>

theorem normalize_title_word_chars:
  "normalize_title None = [] \<and> normalize_title (Some []) = [] \<and>
   normalize_title title =
     spec_normalize (\<lambda>c. is_letter c \<or> is_digit c \<or> c = CHR ''_'' \<or> is_space c) title"
proof -
  have "(\<lambda>c. is_letter c \<or> is_digit c \<or> c = CHR ''_'' \<or> is_space c) = (\<lambda>c. is_word c \<or> is_space c)"
    by (auto simp: is_word_def)
  then have "normalize_title title =
      spec_normalize (\<lambda>c. is_letter c \<or> is_digit c \<or> c = CHR ''_'' \<or> is_space c) title"
    by (simp add: normalize_title_def spec_normalize_def re_sub_nonword_def join_split_eq
        split: option.splits)
  moreover have "normalize_title None = []" "normalize_title (Some []) = []"
    by (simp_all add: normalize_title_def lower_def re_sub_nonword_def split_def)
  ultimately show ?thesis by simp
qed

text \<open>
  Claim C3 as the specification states it, with only letters, digits and whitespace kept,
  fails on a title with an underscore: the code keeps it.
\<close>

theorem normalize_title_underscore_counterexample:
  "normalize_title (Some ''a_b'') = ''a_b'' \<and>
   spec_normalize (\<lambda>c. is_letter c \<or> is_digit c \<or> is_space c) (Some ''a_b'') = ''ab'' \<and>
   normalize_title (Some ''a_b'') \<noteq>
     spec_normalize (\<lambda>c. is_letter c \<or> is_digit c \<or> is_space c) (Some ''a_b'')"
  by code_simp

subsection \<open>Idempotence\<close>

lemma split_scan_append:
  "\<forall>c\<in>set w. \<not> is_space c \<Longrightarrow> split_scan cur (w @ s) = split_scan (cur @ w) s"
  by (induction w arbitrary: cur) auto

lemma split_scan_words:
  "\<forall>c\<in>set cur. \<not> is_space c \<Longrightarrow> w \<in> set (split_scan cur s) \<Longrightarrow>
     w \<noteq> [] \<and> (\<forall>c\<in>set w. \<not> is_space c \<and> c \<in> set cur \<union> set s)"
proof (induction s arbitrary: cur)
  case Nil
  then show ?case by (auto split: if_splits)
next
  case (Cons c cs)
  show ?case
  proof (cases "is_space c")
    case True
    then have "w = cur \<and> cur \<noteq> [] \<or> w \<in> set (split_scan [] cs)"
      using Cons.prems(2) by (auto split: if_splits)
    then show ?thesis
    proof
      assume "w = cur \<and> cur \<noteq> []"
      then show ?thesis using Cons.prems(1) by auto
    next
      assume "w \<in> set (split_scan [] cs)"
      then have "w \<noteq> [] \<and> (\<forall>c\<in>set w. \<not> is_space c \<and> c \<in> set [] \<union> set cs)"
        using Cons.IH [of "[]"] by simp
      then show ?thesis by auto
    qed
  next
    case False
    then have "w \<in> set (split_scan (cur @ [c]) cs)"
      using Cons.prems(2) by simp
    moreover have "\<forall>x\<in>set (cur @ [c]). \<not> is_space x"
      using False Cons.prems(1) by auto
    ultimately have "w \<noteq> [] \<and> (\<forall>x\<in>set w. \<not> is_space x \<and> x \<in> set (cur @ [c]) \<union> set cs)"
      using Cons.IH by blast
    then show ?thesis by auto
  qed
qed

lemma split_join:
  "\<forall>w\<in>set ws. w \<noteq> [] \<and> (\<forall>c\<in>set w. \<not> is_space c) \<Longrightarrow> split_scan [] (join ws) = ws"
proof (induction ws rule: join.induct)
  case 1
  show ?case by simp
next
  case (2 w)
  then show ?case using split_scan_append [of w "[]" "[]"] by simp
next
  case (3 w v vs)
  then have "split_scan [] (join (v # vs)) = v # vs" by simp
  then show ?case using 3(2) split_scan_append [of w "[]" "CHR '' '' # join (v # vs)"]
    by (simp add: is_space_blank)
qed

lemma set_join: "c \<in> set (join ws) \<Longrightarrow> c = CHR '' '' \<or> (\<exists>w\<in>set ws. c \<in> set w)"
  by (induction ws rule: join.induct) auto

lemma lower_char_idem: "lower_char (lower_char c) = lower_char c"
  by (auto simp: lower_char_def code_def)

lemma lower_char_blank: "lower_char (CHR '' '') = CHR '' ''"
  by (simp add: lower_char_def code_def)

text \<open>
  Claim C7.  Normalizing a normalized title changes nothing, for a missing title and for
  every text.
\<close>

theorem normalize_title_idempotent:
  "normalize_title (Some (normalize_title x)) = normalize_title x"
proof (cases x)
  case None
  then show ?thesis by (simp add: normalize_title_def lower_def re_sub_nonword_def split_def)
next
  case (Some t)
  define s where "s = re_sub_nonword (lower t)"
  define ws where "ws = split s"
  have words: "w \<noteq> [] \<and> (\<forall>c\<in>set w. \<not> is_space c \<and> c \<in> set s)" if "w \<in> set ws" for w
    using split_scan_words [of "[]" w s] that by (simp add: ws_def split_def)
  have chars: "lower_char c = c \<and> (is_word c \<or> is_space c)" if "c \<in> set (join ws)" for c
  proof -
    from set_join [OF that] show ?thesis
    proof
      assume "c = CHR '' ''"
      then show ?thesis by (simp add: lower_char_blank is_space_blank)
    next
      assume "\<exists>w\<in>set ws. c \<in> set w"
      then have "c \<in> set s" using words by blast
      then show ?thesis
        by (auto simp: s_def re_sub_nonword_def lower_def lower_char_idem)
    qed
  qed
  have l: "lower (join ws) = join ws"
    unfolding lower_def using chars by (intro map_idI) simp
  have f: "re_sub_nonword (join ws) = join ws"
    unfolding re_sub_nonword_def using chars by (intro filter_True) simp
  have sp: "split (join ws) = ws"
    unfolding split_def using words by (intro split_join) blast
  have "normalize_title x = join ws"
    by (simp add: Some normalize_title_def ws_def s_def)
  then show ?thesis
    by (simp add: normalize_title_def l f sp)
qed

section \<open>Properties of the categorizer\<close>

lemma books_fields:
  "finished (books df) = set (map normalized_title (filter status_finished (drop_deleted df)))"
  "want_to_read (books df) =
     set (map normalized_title (filter (\<lambda>r. Status r = Some ''want_to_read'') (drop_deleted df)))"
  "did_not_finish (books df) =
     set (map normalized_title (filter (\<lambda>r. Status r = Some ''did_not_finish'') (drop_deleted df)))"
  "all_books (books df) = set (map normalized_title (drop_deleted df))"
  by (simp_all add: books_def Let_def)

lemma authors_fields:
  "finished_authors (authors df) =
     set (map primary_author (filter status_finished (drop_deleted df))) - {[]}"
  "all_authors (authors df) = set (map primary_author (drop_deleted df)) - {[]}"
  by (simp_all add: authors_def Let_def)

lemma finite_books:
  "finite (finished (books df))" "finite (want_to_read (books df))"
  "finite (did_not_finish (books df))" "finite (all_books (books df))"
  by (simp_all add: books_fields)

lemma finite_authors:
  "finite (finished_authors (authors df))" "finite (all_authors (authors df))"
  by (simp_all add: authors_fields)

lemma books_subset_all:
  "finished (books df) \<subseteq> all_books (books df)"
  "want_to_read (books df) \<subseteq> all_books (books df)"
  "did_not_finish (books df) \<subseteq> all_books (books df)"
  by (auto simp: books_fields)

lemma authors_subset_all: "finished_authors (authors df) \<subseteq> all_authors (authors df)"
  by (auto simp: authors_fields)

text \<open>
  Claim C10.  For both tables of a pair, the finished, want-to-read and did-not-finish title
  sets are subsets of the set of all titles, and the finished-author set is a subset of the
  all-author set.
\<close>

theorem category_containment:
  "finished (books person1_df) \<subseteq> all_books (books person1_df) \<and>
   want_to_read (books person1_df) \<subseteq> all_books (books person1_df) \<and>
   did_not_finish (books person1_df) \<subseteq> all_books (books person1_df) \<and>
   finished_authors (authors person1_df) \<subseteq> all_authors (authors person1_df) \<and>
   finished (books person2_df) \<subseteq> all_books (books person2_df) \<and>
   want_to_read (books person2_df) \<subseteq> all_books (books person2_df) \<and>
   did_not_finish (books person2_df) \<subseteq> all_books (books person2_df) \<and>
   finished_authors (authors person2_df) \<subseteq> all_authors (authors person2_df)"
  by (simp add: books_subset_all authors_subset_all)

lemma drop_deleted_append: "drop_deleted (xs @ ys) = drop_deleted xs @ drop_deleted ys"
  by (simp add: drop_deleted_def)

lemma drop_deleted_Cons:
  "drop_deleted (r # ys) = (if Status r = Some ''deleted'' then drop_deleted ys else r # drop_deleted ys)"
  by (simp add: drop_deleted_def)

text \<open>
  Claim C8, as amended.  A row with an unrecognized status adds nothing to the finished,
  want-to-read and did-not-finish title sets nor to the finished-author set: they are the
  sets of the table without the row.  Its normalized title is in the set of all titles, and
  its primary author, unless empty, is in the all-author set.  A row with status
  \<open>deleted\<close> changes no set at all.  The categorizer is a total function with no error
  result, whatever the status.
\<close>

theorem status_categories:
  "(unrecognized_status r \<longrightarrow>
      finished (books (xs @ r # ys)) = finished (books (xs @ ys)) \<and>
      want_to_read (books (xs @ r # ys)) = want_to_read (books (xs @ ys)) \<and>
      did_not_finish (books (xs @ r # ys)) = did_not_finish (books (xs @ ys)) \<and>
      finished_authors (authors (xs @ r # ys)) = finished_authors (authors (xs @ ys)) \<and>
      normalized_title r \<in> all_books (books (xs @ r # ys)) \<and>
      (primary_author r \<noteq> [] \<longrightarrow> primary_author r \<in> all_authors (authors (xs @ r # ys)))) \<and>
   (Status r = Some ''deleted'' \<longrightarrow>
      books (xs @ r # ys) = books (xs @ ys) \<and> authors (xs @ r # ys) = authors (xs @ ys))"
proof -
  have del: "books (xs @ r # ys) = books (xs @ ys) \<and> authors (xs @ r # ys) = authors (xs @ ys)"
    if "Status r = Some ''deleted''"
    using that by (simp add: books_def authors_def drop_deleted_append drop_deleted_Cons)
  have unrec: "finished (books (xs @ r # ys)) = finished (books (xs @ ys)) \<and>
      want_to_read (books (xs @ r # ys)) = want_to_read (books (xs @ ys)) \<and>
      did_not_finish (books (xs @ r # ys)) = did_not_finish (books (xs @ ys)) \<and>
      finished_authors (authors (xs @ r # ys)) = finished_authors (authors (xs @ ys)) \<and>
      normalized_title r \<in> all_books (books (xs @ r # ys)) \<and>
      (primary_author r \<noteq> [] \<longrightarrow> primary_author r \<in> all_authors (authors (xs @ r # ys)))"
    if "unrecognized_status r"
    using that
    by (simp add: unrecognized_status_def books_fields authors_fields drop_deleted_append
        drop_deleted_Cons status_finished_def)
  from del unrec show ?thesis by blast
qed

text \<open>
  Claim C8 as the specification states it fails for the all-author set: the author of a
  row with the status \<open>paused\<close> is a member of it.
\<close>

theorem unrecognized_author_counterexample:
  "unrecognized_status paused_row \<and> primary_author paused_row = ''frank herbert'' \<and>
   primary_author paused_row \<in> all_authors (authors [paused_row])"
  by code_simp

theorem status_categories_witness:
  "unrecognized_status paused_row \<and> finished (books [paused_row]) = {} \<and>
   finished_authors (authors [paused_row]) = {} \<and>
   normalized_title paused_row = ''dune'' \<and> ''dune'' \<in> all_books (books [paused_row]) \<and>
   ''frank herbert'' \<in> all_authors (authors [paused_row]) \<and>
   Status deleted_row = Some ''deleted'' \<and> books [deleted_row] = books [] \<and>
   all_books (books [deleted_row]) = {} \<and> all_authors (authors [deleted_row]) = {}"
proof -
  have u: "unrecognized_status paused_row" by code_simp
  have d: "Status deleted_row = Some ''deleted''" by code_simp
  have t: "normalized_title paused_row = ''dune''" by code_simp
  have a: "primary_author paused_row = ''frank herbert''" by code_simp
  have e: "finished (books []) = {}" "all_books (books []) = {}" "all_authors (authors []) = {}"
    "finished_authors (authors []) = {}"
    by (simp_all add: books_fields authors_fields drop_deleted_def)
  show ?thesis
    using status_categories [of paused_row "[]" "[]"] status_categories [of deleted_row "[]" "[]"] u d t a e
    by simp
qed

section \<open>Properties of the ranking\<close>

lemma sorted_desc_sort_reverse:
  "sorted_wrt (\<lambda>a b. key a \<ge> key b) (sort_reverse key xs)"
proof -
  have "sorted (map key (sort_key key (rev xs)))" by simp
  then have "sorted_wrt (\<lambda>a b. key a \<le> key b) (sort_key key (rev xs))"
    by (simp add: sorted_map)
  then show ?thesis
    by (simp add: sort_reverse_def sorted_wrt_rev)
qed

lemma stable_sort_reverse:
  "filter (\<lambda>y. key y = k) (sort_reverse key xs) = filter (\<lambda>y. key y = k) xs"
  by (simp add: sort_reverse_def sort_key_stable flip: rev_filter)

text \<open>
  Claim C9.  The results that \<open>save_results\<close> emits are in descending order of
  \<open>compatibility_score\<close>, and for every score the results with that score appear in the
  order in which they were computed; nothing is lost or added.
\<close>

theorem save_results_ranked:
  "sorted_wrt (\<lambda>a b. compatibility_score a \<ge> compatibility_score b) (save_results results) \<and>
   (\<forall>k. filter (\<lambda>r. compatibility_score r = k) (save_results results)
        = filter (\<lambda>r. compatibility_score r = k) results) \<and>
   length (save_results results) = length results \<and>
   set (save_results results) = set results"
proof -
  have "length (save_results results) = length results" "set (save_results results) = set results"
    by (simp_all add: save_results_def sort_reverse_def)
  then show ?thesis
    by (simp add: save_results_def sorted_desc_sort_reverse stable_sort_reverse)
qed

section \<open>Properties of the score engine\<close>

subsection \<open>Fields of the result\<close>

lemma result_fields:
  "compatibility_score (calculate_compatibility n1 df1 n2 df2) = py_round (total_score (pair_scores df1 df2) * 100) 1"
  "score_breakdown (calculate_compatibility n1 df1 n2 df2) = round_scores (pair_scores df1 df2)"
  "n_disagreements (pair_metrics (calculate_compatibility n1 df1 n2 df2)) = disagreements (books df1) (books df2)"
  "diagnosis (calculate_compatibility n1 df1 n2 df2) =
     generate_diagnosis (total_score (pair_scores df1 df2))
       (card (finished (books df1))) (card (finished (books df2)))
       (card (finished (books df1) \<inter> finished (books df2)))
       (card (finished_authors (authors df1) \<inter> finished_authors (authors df2)))
       (cross_recs_count (books df1) (books df2)) (disagreements (books df1) (books df2))"
  by (simp_all add: calculate_compatibility_def Let_def)

subsection \<open>Ranges\<close>

lemma jaccard_unit:
  "0 \<le> real (card (A \<inter> B)) / real (card (A \<union> B)) \<and> real (card (A \<inter> B)) / real (card (A \<union> B)) \<le> 1"
proof (cases "finite (A \<union> B)")
  case True
  then have "card (A \<inter> B) \<le> card (A \<union> B)" by (intro card_mono) auto
  then show ?thesis by (auto simp: divide_le_eq_1)
next
  case False
  then show ?thesis by simp
qed

lemma shared_finished_bounds:
  "0 \<le> shared_finished_component b1 b2 \<and> shared_finished_component b1 b2 \<le> 0.35"
  by (simp add: shared_finished_component_def Let_def min_def)

lemma shared_authors_bounds:
  "0 \<le> shared_authors_component a1 a2 \<and> shared_authors_component a1 a2 \<le> 0.30"
  using jaccard_unit [of "all_authors a1" "all_authors a2"]
  by (simp add: shared_authors_component_def Let_def)

lemma cross_recommendations_bounds:
  "0 \<le> cross_recommendations_component b1 b2 \<and> cross_recommendations_component b1 b2 \<le> 0.10"
  by (simp add: cross_recommendations_component_def Let_def min_def)

lemma shared_tbr_bounds:
  "0 \<le> shared_tbr_component b1 b2 \<and> shared_tbr_component b1 b2 \<le> 0.20"
  using jaccard_unit [of "want_to_read b1" "want_to_read b2"]
  by (simp add: shared_tbr_component_def Let_def)

lemma finish_rate_unit: "0 \<le> finish_rate (books df) \<and> finish_rate (books df) \<le> 1"
proof -
  have "card (finished (books df)) \<le> card (all_books (books df))"
    by (intro card_mono finite_books books_subset_all)
  then show ?thesis by (simp add: finish_rate_def divide_le_eq_1)
qed

lemma size_ratio_unit: "0 \<le> size_ratio b1 b2 \<and> size_ratio b1 b2 \<le> 1"
  by (auto simp: size_ratio_def divide_le_eq_1)

lemma reading_behavior_bounds:
  "0 \<le> reading_behavior_component (books df1) (books df2) \<and>
   reading_behavior_component (books df1) (books df2) \<le> 0.05"
proof -
  define r1 where "r1 = finish_rate (books df1)"
  define r2 where "r2 = finish_rate (books df2)"
  define q where "q = size_ratio (books df1) (books df2)"
  have r: "0 \<le> r1" "r1 \<le> 1" "0 \<le> r2" "r2 \<le> 1" "0 \<le> q" "q \<le> 1"
    using finish_rate_unit [of df1] finish_rate_unit [of df2] size_ratio_unit [of "books df1" "books df2"]
    by (simp_all add: r1_def r2_def q_def)
  define s where "s = 1 - \<bar>r1 - r2\<bar>"
  have eq: "reading_behavior_component (books df1) (books df2) = (s * 0.7 + q * 0.3) * 0.05"
    by (simp add: reading_behavior_component_def Let_def r1_def r2_def q_def s_def)
  from r have "0 \<le> s" "s \<le> 1" unfolding s_def by linarith+
  with r show ?thesis unfolding eq by (auto simp: algebra_simps)
qed

lemma disagreement_penalty_bounds:
  "- 0.15 \<le> disagreement_penalty_component b1 b2 \<and> disagreement_penalty_component b1 b2 \<le> 0"
  by (simp add: disagreement_penalty_component_def min_def)

lemma pair_scores_fields:
  "shared_finished (pair_scores df1 df2) = shared_finished_component (books df1) (books df2)"
  "shared_authors (pair_scores df1 df2) = shared_authors_component (authors df1) (authors df2)"
  "cross_recommendations (pair_scores df1 df2) = cross_recommendations_component (books df1) (books df2)"
  "shared_tbr (pair_scores df1 df2) = shared_tbr_component (books df1) (books df2)"
  "reading_behavior (pair_scores df1 df2) = reading_behavior_component (books df1) (books df2)"
  "disagreement_penalty (pair_scores df1 df2) = disagreement_penalty_component (books df1) (books df2)"
  by (simp_all add: pair_scores_def compute_scores_def)

lemma total_score_bounds:
  "- 0.15 \<le> total_score (pair_scores df1 df2) \<and> total_score (pair_scores df1 df2) \<le> 1"
  using shared_finished_bounds [of "books df1" "books df2"]
    shared_authors_bounds [of "authors df1" "authors df2"]
    cross_recommendations_bounds [of "books df1" "books df2"]
    shared_tbr_bounds [of "books df1" "books df2"]
    reading_behavior_bounds [of df1 df2]
    disagreement_penalty_bounds [of "books df1" "books df2"]
  by (simp add: total_score_def pair_scores_fields)

lemma round_half_even_ge: "of_int m \<le> x \<Longrightarrow> m \<le> round_half_even x"
proof -
  assume "of_int m \<le> x"
  then have "m \<le> \<lfloor>x\<rfloor>" by (simp add: le_floor_iff)
  then show ?thesis by (simp add: round_half_even_def Let_def)
qed

lemma round_half_even_le: "x \<le> of_int m \<Longrightarrow> round_half_even x \<le> m"
proof (cases "x = of_int m")
  case True
  then show ?thesis by (simp add: round_half_even_def Let_def)
next
  case False
  assume "x \<le> of_int m"
  with False have "x < of_int m" by simp
  then have "\<lfloor>x\<rfloor> < m" by (simp add: floor_less_iff)
  then show ?thesis by (simp add: round_half_even_def Let_def)
qed

lemma round_half_even_of_int: "round_half_even (of_int m) = m"
  by (simp add: round_half_even_def Let_def)

lemma py_round_bounds:
  "of_int a / 10 ^ n \<le> x \<Longrightarrow> x \<le> of_int b / 10 ^ n \<Longrightarrow>
     of_int a / 10 ^ n \<le> py_round x n \<and> py_round x n \<le> of_int b / 10 ^ n"
proof -
  assume lo: "of_int a / 10 ^ n \<le> x" and hi: "x \<le> of_int b / 10 ^ n"
  have p: "(0::real) < 10 ^ n" by simp
  from lo have "of_int a \<le> x * 10 ^ n" using p by (simp add: pos_divide_le_eq)
  then have 1: "a \<le> round_half_even (x * 10 ^ n)" by (rule round_half_even_ge)
  from hi have "x * 10 ^ n \<le> of_int b" using p by (simp add: pos_le_divide_eq)
  then have 2: "round_half_even (x * 10 ^ n) \<le> b" by (rule round_half_even_le)
  from 1 2 show ?thesis using p by (simp add: py_round_def divide_le_cancel)
qed

lemma py_round3_bounds:
  assumes "of_int a / 1000 \<le> x" "x \<le> of_int b / 1000"
  shows "of_int a / 1000 \<le> py_round x 3 \<and> py_round x 3 \<le> of_int b / 1000"
  using py_round_bounds [of a 3 x b] assms by simp

lemma score_breakdown_bounds:
  "0 \<le> shared_authors (score_breakdown (calculate_compatibility n1 df1 n2 df2)) \<and>
   shared_authors (score_breakdown (calculate_compatibility n1 df1 n2 df2)) \<le> 0.30 \<and>
   0 \<le> shared_tbr (score_breakdown (calculate_compatibility n1 df1 n2 df2)) \<and>
   shared_tbr (score_breakdown (calculate_compatibility n1 df1 n2 df2)) \<le> 0.20 \<and>
   0 \<le> shared_finished (score_breakdown (calculate_compatibility n1 df1 n2 df2)) \<and>
   shared_finished (score_breakdown (calculate_compatibility n1 df1 n2 df2)) \<le> 0.35 \<and>
   0 \<le> cross_recommendations (score_breakdown (calculate_compatibility n1 df1 n2 df2)) \<and>
   cross_recommendations (score_breakdown (calculate_compatibility n1 df1 n2 df2)) \<le> 0.10 \<and>
   0 \<le> reading_behavior (score_breakdown (calculate_compatibility n1 df1 n2 df2)) \<and>
   reading_behavior (score_breakdown (calculate_compatibility n1 df1 n2 df2)) \<le> 0.05 \<and>
   - 0.15 \<le> disagreement_penalty (score_breakdown (calculate_compatibility n1 df1 n2 df2)) \<and>
   disagreement_penalty (score_breakdown (calculate_compatibility n1 df1 n2 df2)) \<le> 0"
proof -
  have sa: "0 \<le> py_round (shared_authors_component (authors df1) (authors df2)) 3 \<and>
            py_round (shared_authors_component (authors df1) (authors df2)) 3 \<le> 0.30"
    using py_round3_bounds [of 0 _ 300] shared_authors_bounds [of "authors df1" "authors df2"] by simp
  have tbr: "0 \<le> py_round (shared_tbr_component (books df1) (books df2)) 3 \<and>
            py_round (shared_tbr_component (books df1) (books df2)) 3 \<le> 0.20"
    using py_round3_bounds [of 0 _ 200] shared_tbr_bounds [of "books df1" "books df2"] by simp
  have sf: "0 \<le> py_round (shared_finished_component (books df1) (books df2)) 3 \<and>
            py_round (shared_finished_component (books df1) (books df2)) 3 \<le> 0.35"
    using py_round3_bounds [of 0 _ 350] shared_finished_bounds [of "books df1" "books df2"] by simp
  have cr: "0 \<le> py_round (cross_recommendations_component (books df1) (books df2)) 3 \<and>
            py_round (cross_recommendations_component (books df1) (books df2)) 3 \<le> 0.10"
    using py_round3_bounds [of 0 _ 100] cross_recommendations_bounds [of "books df1" "books df2"] by simp
  have rb: "0 \<le> py_round (reading_behavior_component (books df1) (books df2)) 3 \<and>
            py_round (reading_behavior_component (books df1) (books df2)) 3 \<le> 0.05"
    using py_round3_bounds [of 0 _ 50] reading_behavior_bounds [of df1 df2] by simp
  have dp: "- 0.15 \<le> py_round (disagreement_penalty_component (books df1) (books df2)) 3 \<and>
            py_round (disagreement_penalty_component (books df1) (books df2)) 3 \<le> 0"
    using py_round3_bounds [of "- 150" _ 0] disagreement_penalty_bounds [of "books df1" "books df2"] by simp
  show ?thesis
    using sa tbr sf cr rb dp by (simp add: result_fields round_scores_def pair_scores_fields)
qed

text \<open>
  Claim C4.  For every pair of tables each of the six components lies in its range, before
  and after the rounding to three decimals of the reported breakdown; the total lies
  between -0.15 and 1, and the reported percentage between -15.0 and 100.0.
\<close>

theorem score_component_bounds:
  "(0 \<le> shared_authors (pair_scores df1 df2) \<and> shared_authors (pair_scores df1 df2) \<le> 0.30 \<and>
    0 \<le> shared_tbr (pair_scores df1 df2) \<and> shared_tbr (pair_scores df1 df2) \<le> 0.20 \<and>
    0 \<le> shared_finished (pair_scores df1 df2) \<and> shared_finished (pair_scores df1 df2) \<le> 0.35 \<and>
    0 \<le> cross_recommendations (pair_scores df1 df2) \<and> cross_recommendations (pair_scores df1 df2) \<le> 0.10 \<and>
    0 \<le> reading_behavior (pair_scores df1 df2) \<and> reading_behavior (pair_scores df1 df2) \<le> 0.05 \<and>
    - 0.15 \<le> disagreement_penalty (pair_scores df1 df2) \<and> disagreement_penalty (pair_scores df1 df2) \<le> 0) \<and>
   (0 \<le> shared_authors (score_breakdown (calculate_compatibility n1 df1 n2 df2)) \<and>
    shared_authors (score_breakdown (calculate_compatibility n1 df1 n2 df2)) \<le> 0.30 \<and>
    0 \<le> shared_tbr (score_breakdown (calculate_compatibility n1 df1 n2 df2)) \<and>
    shared_tbr (score_breakdown (calculate_compatibility n1 df1 n2 df2)) \<le> 0.20 \<and>
    0 \<le> shared_finished (score_breakdown (calculate_compatibility n1 df1 n2 df2)) \<and>
    shared_finished (score_breakdown (calculate_compatibility n1 df1 n2 df2)) \<le> 0.35 \<and>
    0 \<le> cross_recommendations (score_breakdown (calculate_compatibility n1 df1 n2 df2)) \<and>
    cross_recommendations (score_breakdown (calculate_compatibility n1 df1 n2 df2)) \<le> 0.10 \<and>
    0 \<le> reading_behavior (score_breakdown (calculate_compatibility n1 df1 n2 df2)) \<and>
    reading_behavior (score_breakdown (calculate_compatibility n1 df1 n2 df2)) \<le> 0.05 \<and>
    - 0.15 \<le> disagreement_penalty (score_breakdown (calculate_compatibility n1 df1 n2 df2)) \<and>
    disagreement_penalty (score_breakdown (calculate_compatibility n1 df1 n2 df2)) \<le> 0) \<and>
   - 0.15 \<le> total_score (pair_scores df1 df2) \<and> total_score (pair_scores df1 df2) \<le> 1.0 \<and>
   - 15.0 \<le> compatibility_score (calculate_compatibility n1 df1 n2 df2) \<and>
   compatibility_score (calculate_compatibility n1 df1 n2 df2) \<le> 100.0"
proof -
  have t: "- 0.15 \<le> total_score (pair_scores df1 df2)" "total_score (pair_scores df1 df2) \<le> 1"
    using total_score_bounds [of df1 df2] by simp_all
  have "of_int (- 150) / 10 ^ 1 \<le> py_round (total_score (pair_scores df1 df2) * 100) 1 \<and>
        py_round (total_score (pair_scores df1 df2) * 100) 1 \<le> of_int 1000 / 10 ^ 1"
    using t by (intro py_round_bounds) simp_all
  then have c: "- 15 \<le> compatibility_score (calculate_compatibility n1 df1 n2 df2)"
    "compatibility_score (calculate_compatibility n1 df1 n2 df2) \<le> 100"
    by (simp_all add: result_fields)
  have raw:
    "0 \<le> shared_authors (pair_scores df1 df2) \<and> shared_authors (pair_scores df1 df2) \<le> 0.30 \<and>
     0 \<le> shared_tbr (pair_scores df1 df2) \<and> shared_tbr (pair_scores df1 df2) \<le> 0.20 \<and>
     0 \<le> shared_finished (pair_scores df1 df2) \<and> shared_finished (pair_scores df1 df2) \<le> 0.35 \<and>
     0 \<le> cross_recommendations (pair_scores df1 df2) \<and> cross_recommendations (pair_scores df1 df2) \<le> 0.10 \<and>
     0 \<le> reading_behavior (pair_scores df1 df2) \<and> reading_behavior (pair_scores df1 df2) \<le> 0.05 \<and>
     - 0.15 \<le> disagreement_penalty (pair_scores df1 df2) \<and> disagreement_penalty (pair_scores df1 df2) \<le> 0"
    using shared_finished_bounds [of "books df1" "books df2"]
      shared_authors_bounds [of "authors df1" "authors df2"]
      cross_recommendations_bounds [of "books df1" "books df2"]
      shared_tbr_bounds [of "books df1" "books df2"]
      reading_behavior_bounds [of df1 df2]
      disagreement_penalty_bounds [of "books df1" "books df2"]
    by (simp add: pair_scores_fields)
  from raw score_breakdown_bounds [of n1 df1 n2 df2] t c show ?thesis
    by (intro conjI) simp_all
qed

subsection \<open>Symmetry\<close>

lemma pair_scores_commute: "pair_scores df1 df2 = pair_scores df2 df1"
  by (simp add: pair_scores_def compute_scores_def shared_finished_component_def
      shared_authors_component_def cross_recommendations_component_def cross_recs_count_def
      shared_tbr_component_def reading_behavior_component_def size_ratio_def
      disagreement_penalty_component_def disagreements_def Let_def
      Int_commute Un_commute add.commute min.commute max.commute abs_minus_commute)

text \<open>
  Claim C5.  Swapping the two tables changes neither the total nor any component, in
  particular not the cross-recommendation and disagreement components, and so not the
  reported percentage.
\<close>

theorem score_symmetric:
  "total_score (pair_scores df1 df2) = total_score (pair_scores df2 df1) \<and>
   cross_recommendations (pair_scores df1 df2) = cross_recommendations (pair_scores df2 df1) \<and>
   disagreement_penalty (pair_scores df1 df2) = disagreement_penalty (pair_scores df2 df1) \<and>
   pair_scores df1 df2 = pair_scores df2 df1 \<and>
   compatibility_score (calculate_compatibility n1 df1 n2 df2)
     = compatibility_score (calculate_compatibility n2 df2 n1 df1) \<and>
   score_breakdown (calculate_compatibility n1 df1 n2 df2)
     = score_breakdown (calculate_compatibility n2 df2 n1 df1)"
  using pair_scores_commute [of df1 df2] by (simp add: result_fields)

subsection \<open>Disagreement penalty\<close>

lemma sublist_join: "p \<in> set parts \<Longrightarrow> sublist p (join parts)"
proof (induction parts rule: join.induct)
  case 1
  then show ?case by simp
next
  case (2 w)
  then show ?case by simp
next
  case (3 w v vs)
  show ?case
  proof (cases "p = w")
    case True
    then show ?thesis by simp
  next
    case False
    with 3 have "sublist p (join (v # vs))" by simp
    then obtain a b where "join (v # vs) = a @ p @ b" by (auto simp: sublist_def)
    then have "join (w # v # vs) = (w @ CHR '' '' # a) @ p @ b" by simp
    then show ?thesis unfolding sublist_def by blast
  qed
qed

lemma show_nat_8: "show_nat 8 = ''8''"
  by code_simp

lemma notable_clause: "sublist ''Notable taste differences (8 disagreements).''
   (generate_diagnosis score p1 p2 sf sa cr 8)"
proof -
  have "''Notable taste differences (8 disagreements).'' \<in> set (diagnosis_parts score p1 p2 sf sa cr 8)"
    by (simp add: diagnosis_parts_def disagreement_clause_def show_nat_8)
  then show ?thesis unfolding generate_diagnosis_def by (rule sublist_join)
qed

lemma py_round_of_int: "py_round (of_int m / 10 ^ n) n = of_int m / 10 ^ n"
  by (simp add: py_round_def round_half_even_of_int)

lemma py_round_minus_015: "py_round (- 0.15) 3 = - 0.15"
  using py_round_of_int [of "- 150" 3] by simp

text \<open>
  Claim C6.  The disagreement component is minus the smaller of 0.15 and 0.02 times the
  number of disagreements, which counts the titles one reader finished and the other
  abandoned, in both directions.  With 8 disagreements the component is -0.15, and the
  diagnosis contains the sentence on notable taste differences with the count 8.
\<close>

theorem disagreement_penalty_capped:
  "disagreements (books df1) (books df2)
     = card (finished (books df1) \<inter> did_not_finish (books df2))
       + card (finished (books df2) \<inter> did_not_finish (books df1)) \<and>
   disagreement_penalty (pair_scores df1 df2)
     = - min 0.15 (real (disagreements (books df1) (books df2)) * 0.02) \<and>
   sublist ''Notable taste differences (8 disagreements).'' (generate_diagnosis score p1 p2 sf sa cr 8) \<and>
   (disagreements (books df1) (books df2) = 8 \<longrightarrow>
      disagreement_penalty (pair_scores df1 df2) = - 0.15 \<and>
      disagreement_penalty (score_breakdown (calculate_compatibility n1 df1 n2 df2)) = - 0.15 \<and>
      sublist ''Notable taste differences (8 disagreements).''
        (diagnosis (calculate_compatibility n1 df1 n2 df2)))"
proof -
  have cap: "disagreement_penalty (pair_scores df1 df2) = - 0.15"
    if "disagreements (books df1) (books df2) = 8"
    using that by (simp add: pair_scores_fields disagreement_penalty_component_def)
  have rounded: "disagreement_penalty (score_breakdown (calculate_compatibility n1 df1 n2 df2)) = - 0.15"
    if "disagreements (books df1) (books df2) = 8"
    using cap [OF that] py_round_minus_015 by (simp add: result_fields round_scores_def)
  have diag: "sublist ''Notable taste differences (8 disagreements).''
        (diagnosis (calculate_compatibility n1 df1 n2 df2))"
    if "disagreements (books df1) (books df2) = 8"
    using that notable_clause by (simp add: result_fields)
  show ?thesis
    using cap rounded diag notable_clause [of score p1 p2 sf sa cr]
    by (simp add: disagreements_def pair_scores_fields disagreement_penalty_component_def)
qed

theorem disagreement_penalty_capped_witness:
  "disagreements (books eight_finished) (books eight_abandoned) = 8 \<and>
   disagreement_penalty (pair_scores eight_finished eight_abandoned) = - 0.15 \<and>
   sublist ''Notable taste differences (8 disagreements).''
     (diagnosis (calculate_compatibility ''P'' eight_finished ''Q'' eight_abandoned))"
proof -
  have h: "disagreements (books eight_finished) (books eight_abandoned) = 8"
    by code_simp
  show ?thesis
    using h disagreement_penalty_capped [of eight_finished eight_abandoned 0 0 0 0 0 0 "''P''" "''Q''"]
    by blast
qed

section \<open>Scenarios\<close>

subsection \<open>Two empty catalogs\<close>

lemma empty_catalog:
  assumes "all_books (books df) = {}"
  shows "books df = \<lparr> finished = {}, want_to_read = {}, did_not_finish = {}, all_books = {} \<rparr>"
    and "authors df = \<lparr> finished_authors = {}, all_authors = {} \<rparr>"
proof -
  from assms have "drop_deleted df = []" by (simp add: books_fields)
  then show "books df = \<lparr> finished = {}, want_to_read = {}, did_not_finish = {}, all_books = {} \<rparr>"
    and "authors df = \<lparr> finished_authors = {}, all_authors = {} \<rparr>"
    by (simp_all add: books_def authors_def)
qed

lemma empty_pair_scores:
  assumes "all_books (books df1) = {}" "all_books (books df2) = {}"
  shows "pair_scores df1 df2 =
     \<lparr> shared_finished = 0, shared_authors = 0, cross_recommendations = 0, shared_tbr = 0,
       reading_behavior = 0.035, disagreement_penalty = 0 \<rparr>"
  by (simp add: pair_scores_def compute_scores_def empty_catalog [OF assms(1)] empty_catalog [OF assms(2)]
      shared_finished_component_def shared_authors_component_def cross_recommendations_component_def
      cross_recs_count_def shared_tbr_component_def reading_behavior_component_def finish_rate_def
      size_ratio_def disagreement_penalty_component_def disagreements_def)

lemma show_nat_3_5: "show_nat 3 = ''3''" "show_nat 5 = ''5''"
  by code_simp+

lemma format_35: "format_1f (7 / 2) = ''3.5''"
proof -
  have "round_half_even (\<bar>7 / 2\<bar> * 10) = 35"
    using round_half_even_of_int [of 35] by simp
  then show ?thesis
    by (simp add: format_1f_def Let_def show_nat_3_5)
qed

lemma show_nat_0: "show_nat 0 = ''0''"
  by code_simp

lemma minimal_diagnosis:
  "generate_diagnosis 0.035 0 0 0 0 0 0 =
     minimal_glyph @ '' MINIMAL COMPATIBILITY (3.5%) Limited overlap with only 0 shared books.''"
  by (simp add: generate_diagnosis_def diagnosis_parts_def main_assessment_def compatibility_level_def
      overlap_clause_def size_clause_def recommendation_clause_def disagreement_clause_def
      author_clause_def format_35 show_nat_0 minimal_glyph_def)

lemma empty_pair_result:
  assumes "all_books (books df1) = {}" "all_books (books df2) = {}"
  shows "total_score (pair_scores df1 df2) = 0.035"
    and "compatibility_score (calculate_compatibility n1 df1 n2 df2) = 3.5"
    and "reading_behavior (score_breakdown (calculate_compatibility n1 df1 n2 df2)) = 0.035"
    and "diagnosis (calculate_compatibility n1 df1 n2 df2) =
       minimal_glyph @ '' MINIMAL COMPATIBILITY (3.5%) Limited overlap with only 0 shared books.''"
proof -
  show t: "total_score (pair_scores df1 df2) = 0.035"
    by (simp add: empty_pair_scores [OF assms] total_score_def)
  show "compatibility_score (calculate_compatibility n1 df1 n2 df2) = 3.5"
    using py_round_of_int [of 35 1] by (simp add: result_fields t)
  show "reading_behavior (score_breakdown (calculate_compatibility n1 df1 n2 df2)) = 0.035"
    using py_round_of_int [of 35 3] by (simp add: result_fields round_scores_def empty_pair_scores [OF assms])
  show "diagnosis (calculate_compatibility n1 df1 n2 df2) =
       minimal_glyph @ '' MINIMAL COMPATIBILITY (3.5%) Limited overlap with only 0 shared books.''"
    using minimal_diagnosis by (simp add: result_fields t empty_catalog [OF assms(1)] empty_catalog [OF assms(2)]
        cross_recs_count_def disagreements_def)
qed

text \<open>
  Claim C1, as amended.  For two tables whose sets of all titles are empty, five of the six
  components are 0 and the reading-behaviour component is 0.035 (both finish rates are 0, so
  the rate similarity is 1, and the size ratio is 0); the total is 0.035, reported as 3.5;
  the level is MINIMAL, and the diagnosis is the MINIMAL headline followed by the overlap
  sentence with the count 0.
\<close>

theorem empty_catalogs_score:
  assumes "all_books (books df1) = {}" and "all_books (books df2) = {}"
  shows "shared_finished (pair_scores df1 df2) = 0 \<and>
         shared_authors (pair_scores df1 df2) = 0 \<and>
         cross_recommendations (pair_scores df1 df2) = 0 \<and>
         shared_tbr (pair_scores df1 df2) = 0 \<and>
         disagreement_penalty (pair_scores df1 df2) = 0 \<and>
         reading_behavior (pair_scores df1 df2) = 0.035 \<and>
         total_score (pair_scores df1 df2) = 0.035 \<and>
         compatibility_score (calculate_compatibility n1 df1 n2 df2) = 3.5 \<and>
         fst (compatibility_level (total_score (pair_scores df1 df2))) = ''MINIMAL'' \<and>
         diagnosis (calculate_compatibility n1 df1 n2 df2) =
           minimal_glyph @ '' MINIMAL COMPATIBILITY (3.5%) Limited overlap with only 0 shared books.'' \<and>
         sublist ''Limited overlap with only 0 shared books.''
           (diagnosis (calculate_compatibility n1 df1 n2 df2))"
proof -
  note r = empty_pair_result [OF assms]
  have lvl: "fst (compatibility_level (total_score (pair_scores df1 df2))) = ''MINIMAL''"
    by (simp add: r(1) compatibility_level_def)
  have "sublist ''Limited overlap with only 0 shared books.''
      ((minimal_glyph @ '' MINIMAL COMPATIBILITY (3.5%) '') @ ''Limited overlap with only 0 shared books.'')"
    by (rule sublist_append_leftI)
  then have sub: "sublist ''Limited overlap with only 0 shared books.''
           (diagnosis (calculate_compatibility n1 df1 n2 df2))"
    by (simp add: r(4))
  show ?thesis
    using r(1,2,4) lvl sub by (simp add: empty_pair_scores [OF assms])
qed

text \<open>
  Claim C1 as the specification states it fails on two empty tables: the reading-behaviour
  component is 0.035 and the percentage 3.5, neither is 0.
\<close>

theorem empty_catalogs_counterexample:
  "all_books (books []) = {} \<and>
   reading_behavior (pair_scores [] []) = 0.035 \<and>
   reading_behavior (pair_scores [] []) \<noteq> 0 \<and>
   reading_behavior (score_breakdown (calculate_compatibility ''P'' [] ''Q'' [])) = 0.035 \<and>
   compatibility_score (calculate_compatibility ''P'' [] ''Q'' []) = 3.5 \<and>
   compatibility_score (calculate_compatibility ''P'' [] ''Q'' []) \<noteq> 0.0"
proof -
  have e: "all_books (books []) = {}" by (simp add: books_fields drop_deleted_def)
  show ?thesis
    using e empty_pair_result(2,3) [OF e e, of "''P''" "''Q''"]
    by (simp add: empty_pair_scores [OF e e])
qed

theorem empty_catalogs_score_witness:
  "all_books (books []) = {} \<and> all_books (books [deleted_row]) = {} \<and>
   reading_behavior (pair_scores [] [deleted_row]) = 0.035 \<and>
   compatibility_score (calculate_compatibility ''P'' [] ''Q'' [deleted_row]) = 3.5 \<and>
   sublist ''Limited overlap with only 0 shared books.''
     (diagnosis (calculate_compatibility ''P'' [] ''Q'' [deleted_row]))"
proof -
  have e: "all_books (books []) = {}" by (simp add: books_fields drop_deleted_def)
  have d: "all_books (books [deleted_row]) = {}"
    by (simp add: books_fields drop_deleted_def deleted_row_def)
  show ?thesis
    using e d empty_catalogs_score [OF e d, of "''P''" "''Q''"] by blast
qed

subsection \<open>Identical finished sets of size five\<close>

lemma size_ratio_pos:
  "0 < card (all_books b1) \<Longrightarrow> 0 < card (all_books b2) \<Longrightarrow> 0 < size_ratio b1 b2"
  by (simp add: size_ratio_def)

lemma reading_behavior_pos:
  assumes "finished (books df1) \<noteq> {}" "finished (books df2) \<noteq> {}"
  shows "0 < reading_behavior_component (books df1) (books df2)"
proof -
  have c: "0 < card (all_books (books df)) " if "finished (books df) \<noteq> {}" for df
  proof -
    from that books_subset_all(1) [of df] have "all_books (books df) \<noteq> {}" by auto
    then show ?thesis by (simp add: card_gt_0_iff finite_books)
  qed
  define r1 where "r1 = finish_rate (books df1)"
  define r2 where "r2 = finish_rate (books df2)"
  define q where "q = size_ratio (books df1) (books df2)"
  define s where "s = 1 - \<bar>r1 - r2\<bar>"
  have r: "0 \<le> r1" "r1 \<le> 1" "0 \<le> r2" "r2 \<le> 1"
    using finish_rate_unit [of df1] finish_rate_unit [of df2] by (simp_all add: r1_def r2_def)
  have q: "0 < q" unfolding q_def using c [OF assms(1)] c [OF assms(2)] by (rule size_ratio_pos)
  have eq: "reading_behavior_component (books df1) (books df2) = (s * 0.7 + q * 0.3) * 0.05"
    by (simp add: reading_behavior_component_def Let_def r1_def r2_def q_def s_def)
  from r have "0 \<le> s" unfolding s_def by linarith
  with q show ?thesis unfolding eq by (auto simp: algebra_simps intro: add_nonneg_pos)
qed

lemma reading_behavior_full:
  assumes "all_books (books df1) = finished (books df1)" "all_books (books df2) = finished (books df2)"
    and "card (finished (books df1)) = card (finished (books df2))" "0 < card (finished (books df1))"
  shows "reading_behavior_component (books df1) (books df2) = 0.05"
  using assms by (simp add: reading_behavior_component_def finish_rate_def size_ratio_def)

lemma identical_finished_scores:
  assumes same: "finished (books df1) = finished (books df2)"
    and five: "card (finished (books df1)) = 5"
    and no_authors: "all_authors (authors df1) = {}" "all_authors (authors df2) = {}"
    and no_tbr: "want_to_read (books df1) = {}" "want_to_read (books df2) = {}"
    and no_dnf: "did_not_finish (books df1) = {}" "did_not_finish (books df2) = {}"
  shows "shared_finished (pair_scores df1 df2) = 0.35"
    and "shared_authors (pair_scores df1 df2) = 0"
    and "cross_recommendations (pair_scores df1 df2) = 0"
    and "shared_tbr (pair_scores df1 df2) = 0"
    and "disagreement_penalty (pair_scores df1 df2) = 0"
    and "total_score (pair_scores df1 df2) = 0.35 + reading_behavior (pair_scores df1 df2)"
proof -
  have five2: "card (finished (books df2)) = 5" using same five by simp
  show sf: "shared_finished (pair_scores df1 df2) = 0.35"
    using five five2 by (simp add: pair_scores_fields shared_finished_component_def same [symmetric])
  show sa: "shared_authors (pair_scores df1 df2) = 0"
    by (simp add: pair_scores_fields shared_authors_component_def no_authors)
  show cr: "cross_recommendations (pair_scores df1 df2) = 0"
    by (simp add: pair_scores_fields cross_recommendations_component_def cross_recs_count_def no_tbr)
  show tbr: "shared_tbr (pair_scores df1 df2) = 0"
    by (simp add: pair_scores_fields shared_tbr_component_def no_tbr)
  show dp: "disagreement_penalty (pair_scores df1 df2) = 0"
    by (simp add: pair_scores_fields disagreement_penalty_component_def disagreements_def no_dnf)
  show "total_score (pair_scores df1 df2) = 0.35 + reading_behavior (pair_scores df1 df2)"
    by (simp add: total_score_def sf sa cr tbr dp)
qed

lemma py_round_40: "py_round 40 1 = 40"
  using py_round_of_int [of 400 1] by simp

lemma full_score_percentage:
  assumes "total_score (pair_scores df1 df2) = 0.40"
  shows "compatibility_score (calculate_compatibility n1 df1 n2 df2) = 40"
proof -
  have h: "total_score (pair_scores df1 df2) * 100 = 40" using assms by simp
  show ?thesis unfolding result_fields h by (rule py_round_40)
qed

lemma moderate_level: "0.30 \<le> x \<Longrightarrow> x < 0.50 \<Longrightarrow> fst (compatibility_level x) = ''MODERATE''"
  by (simp add: compatibility_level_def)

text \<open>
  Claim C2, as amended.  For two tables with the same five finished titles, no authors, no
  want-to-read and no did-not-finish titles, the shared-finished component is 0.35; the
  total is 0.35 plus the reading-behaviour component, above 0.35 and at most 0.40; the
  reported percentage lies between 35.0 and 40.0 and the level is MODERATE.  Where the
  finished titles are all the titles of both tables, the total is 0.40 and the percentage
  is 40.0.
\<close>

theorem identical_finished_score:
  assumes "finished (books df1) = finished (books df2)"
    and "card (finished (books df1)) = 5"
    and "all_authors (authors df1) = {}" and "all_authors (authors df2) = {}"
    and "want_to_read (books df1) = {}" and "want_to_read (books df2) = {}"
    and "did_not_finish (books df1) = {}" and "did_not_finish (books df2) = {}"
  shows "shared_finished (pair_scores df1 df2) = min 1 (5 / 5) * 0.35 \<and>
         shared_finished (pair_scores df1 df2) = 0.35 \<and>
         total_score (pair_scores df1 df2) = 0.35 + reading_behavior (pair_scores df1 df2) \<and>
         0.35 < total_score (pair_scores df1 df2) \<and> total_score (pair_scores df1 df2) \<le> 0.40 \<and>
         35.0 \<le> compatibility_score (calculate_compatibility n1 df1 n2 df2) \<and>
         compatibility_score (calculate_compatibility n1 df1 n2 df2) \<le> 40.0 \<and>
         fst (compatibility_level (total_score (pair_scores df1 df2))) = ''MODERATE'' \<and>
         (all_books (books df1) = finished (books df1) \<and> all_books (books df2) = finished (books df2) \<longrightarrow>
            total_score (pair_scores df1 df2) = 0.40 \<and>
            compatibility_score (calculate_compatibility n1 df1 n2 df2) = 40.0)"
proof -
  note s = identical_finished_scores [OF assms]
  have ne: "finished (books df1) \<noteq> {}" "finished (books df2) \<noteq> {}"
    using assms(1,2) by auto
  have rb: "0 < reading_behavior (pair_scores df1 df2)" "reading_behavior (pair_scores df1 df2) \<le> 0.05"
    using reading_behavior_pos [OF ne] reading_behavior_bounds [of df1 df2]
    by (simp_all add: pair_scores_fields)
  have t: "0.35 < total_score (pair_scores df1 df2)" "total_score (pair_scores df1 df2) \<le> 0.40"
    using rb by (simp_all add: s(6))
  have "of_int 350 / 10 ^ 1 \<le> py_round (total_score (pair_scores df1 df2) * 100) 1 \<and>
        py_round (total_score (pair_scores df1 df2) * 100) 1 \<le> of_int 400 / 10 ^ 1"
    using t by (intro py_round_bounds) simp_all
  then have c: "35 \<le> compatibility_score (calculate_compatibility n1 df1 n2 df2)"
    "compatibility_score (calculate_compatibility n1 df1 n2 df2) \<le> 40"
    by (simp_all add: result_fields)
  have lvl: "fst (compatibility_level (total_score (pair_scores df1 df2))) = ''MODERATE''"
    using t by (intro moderate_level) simp_all
  have full: "total_score (pair_scores df1 df2) = 0.40 \<and>
      compatibility_score (calculate_compatibility n1 df1 n2 df2) = 40.0"
    if a: "all_books (books df1) = finished (books df1)" "all_books (books df2) = finished (books df2)"
  proof -
    have "reading_behavior (pair_scores df1 df2) = 0.05"
      using reading_behavior_full [OF a] assms(1,2) by (simp add: pair_scores_fields)
    then have tt: "total_score (pair_scores df1 df2) = 0.40" by (simp add: s(6))
    then show ?thesis using full_score_percentage [OF tt, of n1 n2] by simp
  qed
  show ?thesis using s(1,6) t c lvl full by simp
qed

lemma five_finished_sets:
  "card (finished (books five_finished)) = 5"
  "all_authors (authors five_finished) = {}"
  "want_to_read (books five_finished) = {}"
  "did_not_finish (books five_finished) = {}"
  "all_books (books five_finished) = finished (books five_finished)"
  by code_simp+

text \<open>
  Claim C2 as the specification states it fails on two tables of the same five finished
  titles and nothing else: the reading-behaviour component adds 0.05, and the percentage is
  40.0, not 35.0.
\<close>

theorem identical_finished_counterexample:
  "card (finished (books five_finished)) = 5 \<and>
   all_authors (authors five_finished) = {} \<and>
   want_to_read (books five_finished) = {} \<and>
   did_not_finish (books five_finished) = {} \<and>
   shared_finished (pair_scores five_finished five_finished) = 0.35 \<and>
   reading_behavior (pair_scores five_finished five_finished) = 0.05 \<and>
   total_score (pair_scores five_finished five_finished) = 0.40 \<and>
   compatibility_score (calculate_compatibility ''P'' five_finished ''Q'' five_finished) = 40.0 \<and>
   compatibility_score (calculate_compatibility ''P'' five_finished ''Q'' five_finished) \<noteq> 35.0"
proof -
  note f = five_finished_sets
  note s = identical_finished_scores [OF refl f(1) f(2) f(2) f(3) f(3) f(4) f(4)]
  have rb: "reading_behavior (pair_scores five_finished five_finished) = 0.05"
    using reading_behavior_full [OF f(5) f(5) refl] f(1) by (simp add: pair_scores_fields)
  then have t: "total_score (pair_scores five_finished five_finished) = 0.40" by (simp add: s(6))
  then have c: "compatibility_score (calculate_compatibility ''P'' five_finished ''Q'' five_finished) = 40.0"
    using full_score_percentage [of five_finished five_finished "''P''" "''Q''"] by simp
  show ?thesis using f(1-4) s(1) rb t c by simp
qed

theorem identical_finished_score_witness:
  "finished (books five_finished) = finished (books five_finished) \<and>
   card (finished (books five_finished)) = 5 \<and>
   all_authors (authors five_finished) = {} \<and>
   want_to_read (books five_finished) = {} \<and>
   did_not_finish (books five_finished) = {} \<and>
   all_books (books five_finished) = finished (books five_finished) \<and>
   shared_finished (pair_scores five_finished five_finished) = 0.35 \<and>
   total_score (pair_scores five_finished five_finished) = 0.40 \<and>
   compatibility_score (calculate_compatibility ''P'' five_finished ''Q'' five_finished) = 40.0 \<and>
   fst (compatibility_level (total_score (pair_scores five_finished five_finished))) = ''MODERATE''"
proof -
  note f = five_finished_sets
  show ?thesis
    using f identical_finished_score [OF refl f(1) f(2) f(2) f(3) f(3) f(4) f(4), of "''P''" "''Q''"]
    by blast
qed

end
